theory Spec2Isabelle
  imports Main
begin

section \<open>The end-of-turn state\<close>

text \<open>
  \<^verbatim>\<open>class EndOfTurnState(Enum): COMPLETE = 1; INCOMPLETE = 2\<close>.
  The enumeration has two members and no fields; the numbers are the members' values.
\<close>

datatype EndOfTurnState = COMPLETE | INCOMPLETE

definition EndOfTurnState_value :: "EndOfTurnState \<Rightarrow> int" where
  "EndOfTurnState_value s = (case s of COMPLETE \<Rightarrow> 1 | INCOMPLETE \<Rightarrow> 2)"

section \<open>The analyzer object\<close>

text \<open>
  \<^verbatim>\<open>BaseTurnAnalyzer\<close> has two attributes, both written by \<^verbatim>\<open>__init__\<close>:
  \<^verbatim>\<open>self._init_sample_rate\<close> (an \<^verbatim>\<open>Optional[int]\<close>, \<^verbatim>\<open>None\<close> by default) and
  \<^verbatim>\<open>self._sample_rate\<close> (an \<^verbatim>\<open>int\<close>). An Isabelle name cannot start with an
  underscore, so the private attributes carry the prefix \<open>priv\<close>. The class is abstract:
  whatever a concrete analyzer adds to the object lives in the record's extension
  slot, so every operation below is stated for all such extensions.
\<close>

record BaseTurnAnalyzer =
  priv_init_sample_rate :: "int option"
  priv_sample_rate :: int

text \<open>
  Python's \<^verbatim>\<open>x or y\<close> on an optional integer \<open>x\<close>: the result is \<open>x\<close> when \<open>x\<close> is
  truthy and \<open>y\<close> otherwise. \<^verbatim>\<open>None\<close> and \<^verbatim>\<open>0\<close> are the falsy values.
\<close>

definition truthy :: "int option \<Rightarrow> bool" where
  "truthy x = (case x of None \<Rightarrow> False | Some v \<Rightarrow> v \<noteq> 0)"

definition py_or :: "int option \<Rightarrow> int \<Rightarrow> int" where
  "py_or x y = (if truthy x then the x else y)"

text \<open>
  \<^verbatim>\<open>__init__(self, *, sample_rate=None)\<close>: stores the argument and sets the effective
  rate to zero. The second argument is the state a subclass adds.
\<close>

definition BaseTurnAnalyzer_init :: "int option \<Rightarrow> 'a \<Rightarrow> 'a BaseTurnAnalyzer_scheme" where
  "BaseTurnAnalyzer_init sample_rate rest =
     \<lparr>priv_init_sample_rate = sample_rate, priv_sample_rate = 0, \<dots> = rest\<rparr>"

text \<open>The property \<^verbatim>\<open>sample_rate\<close>: \<^verbatim>\<open>return self._sample_rate\<close>.\<close>

definition sample_rate :: "'a BaseTurnAnalyzer_scheme \<Rightarrow> int" where
  "sample_rate self = priv_sample_rate self"

text \<open>
  \<^verbatim>\<open>set_sample_rate\<close>: \<^verbatim>\<open>self._sample_rate = self._init_sample_rate or sample_rate\<close>.
  The method has no other statement, raises nothing and returns \<^verbatim>\<open>None\<close>; the model
  returns the updated object.
\<close>

definition set_sample_rate :: "'a BaseTurnAnalyzer_scheme \<Rightarrow> int \<Rightarrow> 'a BaseTurnAnalyzer_scheme" where
  "set_sample_rate self rate =
     self\<lparr>priv_sample_rate := py_or (priv_init_sample_rate self) rate\<rparr>"

text \<open>A host that calls \<^verbatim>\<open>set_sample_rate\<close> once for each rate of a list, in order.\<close>

fun set_sample_rates :: "'a BaseTurnAnalyzer_scheme \<Rightarrow> int list \<Rightarrow> 'a BaseTurnAnalyzer_scheme" where
  "set_sample_rates self [] = self"
| "set_sample_rates self (r # rs) = set_sample_rates (set_sample_rate self r) rs"

section \<open>The abstract operations\<close>

text \<open>
  \<^verbatim>\<open>append_audio(self, buffer: bytes, is_speech: bool) -> EndOfTurnState\<close> and
  \<^verbatim>\<open>async analyze_end_of_turn(self) -> Tuple[EndOfTurnState, Optional[MetricsData]]\<close>
  are abstract: the base class gives their signatures and no behaviour. A concrete
  analyzer is any pair of functions of these types over its own object type \<open>'s\<close>; each
  returns its result together with the updated object, and the analysis may raise an
  error \<open>'e\<close> instead. \<open>'m\<close> stands for \<^verbatim>\<open>MetricsData\<close>, which is imported from another
  module.
\<close>

type_synonym bytes = string

type_synonym 's append_audio_op = "'s \<Rightarrow> bytes \<Rightarrow> bool \<Rightarrow> EndOfTurnState \<times> 's"

type_synonym ('s, 'm, 'e) analyze_end_of_turn_op = "'s \<Rightarrow> 'e + ((EndOfTurnState \<times> 'm option) \<times> 's)"

text \<open>
  A host that feeds a list of tagged chunks to \<^verbatim>\<open>append_audio\<close>, in order, and collects
  the state each call returns.
\<close>

fun append_audios :: "'s append_audio_op \<Rightarrow> 's \<Rightarrow> (bytes \<times> bool) list \<Rightarrow> EndOfTurnState list" where
  "append_audios append_audio self [] = []"
| "append_audios append_audio self ((buffer, is_speech) # chunks) =
     (case append_audio self buffer is_speech of
        (state, self') \<Rightarrow> state # append_audios append_audio self' chunks)"

section \<open>A concrete analyzer and its reset\<close>

text \<open>
  Modelled from the spec: the object of a concrete analyzer, its \<^verbatim>\<open>speech_triggered\<close>
  property and its \<^verbatim>\<open>clear()\<close>. The base class declares \<^verbatim>\<open>speech_triggered\<close>, \<^verbatim>\<open>params\<close>
  and \<^verbatim>\<open>clear\<close> abstract, and no concrete analyzer is among the sources. Section 3 of
  the specification gives a concrete analyzer, beside the two sample rates, the flag
  \<open>speechTriggered\<close>, the configuration \<open>params\<close> and its internal accumulation state
  (buffered audio, timers).
\<close>

record 'p TurnAnalyzer = BaseTurnAnalyzer +
  priv_params :: 'p
  priv_speech_triggered :: bool
  priv_audio_buffer :: "bytes list"
  priv_timer :: nat

text \<open>
  Modelled from the spec: the condition of a concrete analyzer right after construction.
  Section 8: \<open>speechTriggered\<close> before any ingestion is false; nothing is buffered and no
  time has been counted. The sample rates are those of the base class's \<^verbatim>\<open>__init__\<close>.
\<close>

definition TurnAnalyzer_init :: "int option \<Rightarrow> 'p \<Rightarrow> 'p TurnAnalyzer" where
  "TurnAnalyzer_init rate params =
     \<lparr>priv_init_sample_rate = rate, priv_sample_rate = 0,
      priv_params = params, priv_speech_triggered = False,
      priv_audio_buffer = [], priv_timer = 0\<rparr>"

text \<open>Modelled from the spec: the read-only query \<open>speechTriggered\<close> (section 4.5).\<close>

definition speech_triggered :: "'p TurnAnalyzer \<Rightarrow> bool" where
  "speech_triggered self = priv_speech_triggered self"

text \<open>
  Modelled from the spec: \<^verbatim>\<open>clear()\<close>, section 4.4: it "resets all internal accumulation
  (buffers, timers, \<open>speechTriggered\<close>) to the analyzer's initial post-construction
  condition, but preserves the resolved \<open>effectiveSampleRate\<close> and any fixed
  configuration".
\<close>

definition clear :: "'p TurnAnalyzer \<Rightarrow> 'p TurnAnalyzer" where
  "clear self = self\<lparr>priv_speech_triggered := False, priv_audio_buffer := [], priv_timer := 0\<rparr>"

section \<open>Basic facts\<close>

lemma py_or_None: "py_or None y = y"
  by (simp add: py_or_def truthy_def)

lemma py_or_zero: "py_or (Some 0) y = y"
  by (simp add: py_or_def truthy_def)

lemma py_or_nonzero: "v \<noteq> 0 \<Longrightarrow> py_or (Some v) y = v"
  by (simp add: py_or_def truthy_def)

lemma py_or_cases: "py_or x y = (case x of None \<Rightarrow> y | Some v \<Rightarrow> if v = 0 then y else v)"
  by (simp add: py_or_def truthy_def split: option.split)

lemma init_sample_rate_set [simp]:
  "priv_init_sample_rate (set_sample_rate self r) = priv_init_sample_rate self"
  by (simp add: set_sample_rate_def)

lemma sample_rate_set:
  "sample_rate (set_sample_rate self r) = py_or (priv_init_sample_rate self) r"
  by (simp add: set_sample_rate_def sample_rate_def)

lemma init_sample_rate_sets [simp]:
  "priv_init_sample_rate (set_sample_rates self rs) = priv_init_sample_rate self"
  by (induction rs arbitrary: self) simp_all

lemma set_sample_rates_snoc:
  "set_sample_rates self (rs @ [r]) = set_sample_rate (set_sample_rates self rs) r"
  by (induction rs arbitrary: self) simp_all

section \<open>Negotiation without a fixed rate\<close>

text \<open>
  C2. An analyzer whose construction-time rate is absent takes the proposed rate: after
  \<^verbatim>\<open>set_sample_rate(r)\<close> the accessor \<^verbatim>\<open>sample_rate\<close> returns \<open>r\<close>, for every \<open>r\<close>
  and whatever the analyzer's other state is.
\<close>

theorem set_sample_rate_no_fixed:
  "priv_init_sample_rate self = None \<Longrightarrow> sample_rate (set_sample_rate self r) = r"
  by (simp add: sample_rate_set py_or_None)

theorem set_sample_rate_no_fixed_witness:
  "priv_init_sample_rate (BaseTurnAnalyzer_init None ()) = None \<and>
   sample_rate (set_sample_rate (BaseTurnAnalyzer_init None ()) 16000) = 16000"
  using set_sample_rate_no_fixed [of "BaseTurnAnalyzer_init None ()" 16000]
  by (simp add: BaseTurnAnalyzer_init_def)

section \<open>Negotiation with a fixed rate\<close>

text \<open>
  A fixed rate other than zero wins over every proposed rate, after one call and after
  any number of calls.
\<close>

lemma set_sample_rate_fixed_nonzero:
  "priv_init_sample_rate self = Some fixed \<Longrightarrow> fixed \<noteq> 0 \<Longrightarrow>
   sample_rate (set_sample_rate self r) = fixed"
  by (simp add: sample_rate_set py_or_nonzero)

lemma set_sample_rate_fixed_8000:
  "sample_rate (set_sample_rate (BaseTurnAnalyzer_init (Some 8000) rest) 16000) = 8000"
  by (simp add: sample_rate_set py_or_nonzero BaseTurnAnalyzer_init_def)

lemma set_sample_rates_last:
  "rs \<noteq> [] \<Longrightarrow>
   sample_rate (set_sample_rates self rs) = py_or (priv_init_sample_rate self) (last rs)"
proof (cases rs rule: rev_cases)
  case Nil
  assume "rs \<noteq> []"
  with Nil show ?thesis by simp
next
  case (snoc ys y)
  then show ?thesis
    by (simp add: set_sample_rates_snoc sample_rate_set)
qed

lemma set_sample_rates_no_fixed:
  "priv_init_sample_rate self = None \<Longrightarrow> rs \<noteq> [] \<Longrightarrow>
   sample_rate (set_sample_rates self rs) = last rs"
  by (simp add: set_sample_rates_last py_or_None)

lemma set_sample_rates_fixed_nonzero:
  "priv_init_sample_rate self = Some fixed \<Longrightarrow> fixed \<noteq> 0 \<Longrightarrow> rs \<noteq> [] \<Longrightarrow>
   sample_rate (set_sample_rates self rs) = fixed"
  by (simp add: set_sample_rates_last py_or_nonzero)

text \<open>
  C1. The contract, in the words of the docstrings: a rate provided at construction is
  the fixed rate, and \<^verbatim>\<open>set_sample_rate\<close> uses it whatever rate is proposed. At the fixed
  rate 0 the code does not: an analyzer constructed with \<^verbatim>\<open>sample_rate=0\<close> and then
  offered 16000 has the effective rate 16000, not the fixed rate 0.
\<close>

theorem set_sample_rate_fixed_zero_at_16000:
  "sample_rate (set_sample_rate (BaseTurnAnalyzer_init (Some 0) ()) 16000) = 16000 \<and>
   sample_rate (set_sample_rate (BaseTurnAnalyzer_init (Some 0) ()) 16000) \<noteq> 0"
  by (simp add: sample_rate_set py_or_zero BaseTurnAnalyzer_init_def)

text \<open>
  C9. An analyzer constructed with the fixed rate 0 resolves the effective rate to the
  proposed rate, for every proposed rate: the truthiness test of \<^verbatim>\<open>or\<close> treats 0 as it
  treats \<^verbatim>\<open>None\<close>, so the analyzer behaves as one constructed without a fixed rate.
\<close>

theorem set_sample_rate_fixed_zero:
  "sample_rate (set_sample_rate (BaseTurnAnalyzer_init (Some 0) rest) r) = r \<and>
   sample_rate (set_sample_rate (BaseTurnAnalyzer_init (Some 0) rest) r) =
     sample_rate (set_sample_rate (BaseTurnAnalyzer_init None rest) r) \<and>
   truthy (Some 0) = truthy None"
  by (simp add: sample_rate_set py_or_zero py_or_None BaseTurnAnalyzer_init_def truthy_def)

section \<open>The accessor before and after negotiation\<close>

text \<open>
  C3. For every construction-time rate, fixed or absent, the accessor \<^verbatim>\<open>sample_rate\<close>
  returns zero on the freshly constructed analyzer; after \<^verbatim>\<open>set_sample_rate(r)\<close> it
  returns the value the call resolved, which is the attribute the call wrote: the
  construction-time rate when that is present and not zero, and \<open>r\<close> otherwise. The
  scenario of the specification: no fixed rate, 0 before the call, 16000 after
  \<^verbatim>\<open>set_sample_rate(16000)\<close>.
\<close>

theorem sample_rate_before_and_after:
  "sample_rate (BaseTurnAnalyzer_init fixed rest) = 0 \<and>
   sample_rate (set_sample_rate self r) = priv_sample_rate (set_sample_rate self r) \<and>
   sample_rate (set_sample_rate self r) =
     (case priv_init_sample_rate self of None \<Rightarrow> r | Some v \<Rightarrow> if v = 0 then r else v) \<and>
   sample_rate (BaseTurnAnalyzer_init None rest) = 0 \<and>
   sample_rate (set_sample_rate (BaseTurnAnalyzer_init None rest) 16000) = 16000"
  by (simp add: sample_rate_def set_sample_rate_def py_or_cases BaseTurnAnalyzer_init_def)

section \<open>Repeated negotiation\<close>

text \<open>
  C4. Calling \<^verbatim>\<open>set_sample_rate(r)\<close> a second time with the same \<open>r\<close> changes nothing:
  the whole object, and so the effective rate, is what the first call left. In
  particular an analyzer without a fixed rate resolves to 16000 after one call of
  \<^verbatim>\<open>set_sample_rate(16000)\<close> and after two.
\<close>

theorem set_sample_rate_idempotent:
  "set_sample_rate (set_sample_rate self r) r = set_sample_rate self r \<and>
   sample_rate (set_sample_rate (set_sample_rate self r) r) = sample_rate (set_sample_rate self r) \<and>
   sample_rate (set_sample_rate (BaseTurnAnalyzer_init None rest) 16000) = 16000 \<and>
   sample_rate (set_sample_rate (set_sample_rate (BaseTurnAnalyzer_init None rest) 16000) 16000) = 16000"
  by (simp add: set_sample_rate_def sample_rate_def py_or_None BaseTurnAnalyzer_init_def)

text \<open>
  C5. The contract: every call re-resolves by the same rule, so after any sequence of
  calls the effective rate is the last proposed rate when no rate was fixed (lemma
  \<open>set_sample_rates_no_fixed\<close>) and the fixed rate when one was (lemma
  \<open>set_sample_rates_fixed_nonzero\<close>, for a rate other than 0). At the fixed rate 0 the
  code does not keep the fixed rate: after \<^verbatim>\<open>set_sample_rate(16000)\<close> the effective rate is
  16000, and after a further \<^verbatim>\<open>set_sample_rate(8000)\<close> it is 8000.
\<close>

theorem set_sample_rates_fixed_zero_at_16000_8000:
  "sample_rate (set_sample_rates (BaseTurnAnalyzer_init (Some 0) ()) [16000]) = 16000 \<and>
   sample_rate (set_sample_rates (BaseTurnAnalyzer_init (Some 0) ()) [16000, 8000]) = 8000"
  by (simp add: sample_rate_set py_or_zero BaseTurnAnalyzer_init_def)

section \<open>What negotiation leaves alone\<close>

text \<open>
  C6. \<^verbatim>\<open>set_sample_rate\<close> writes the effective rate and nothing else: the construction-time
  rate is the same after the call (and after any sequence of calls), the state a concrete
  analyzer adds is the same, and putting the old effective rate back gives the object
  from before the call.
\<close>

theorem set_sample_rate_frame:
  "priv_init_sample_rate (set_sample_rate self r) = priv_init_sample_rate self \<and>
   BaseTurnAnalyzer.more (set_sample_rate self r) = BaseTurnAnalyzer.more self \<and>
   (set_sample_rate self r)\<lparr>priv_sample_rate := priv_sample_rate self\<rparr> = self \<and>
   priv_init_sample_rate (set_sample_rates self rs) = priv_init_sample_rate self"
  by (simp add: set_sample_rate_def)

section \<open>Negotiating the rate zero\<close>

text \<open>
  C10. Without a fixed rate, \<^verbatim>\<open>set_sample_rate(0)\<close> leaves the accessor at 0, the value
  it has before any negotiation; indeed the whole object equals the freshly constructed
  one. The proposed rate is not validated: the method has no failing branch, and every
  integer, zero and the negative ones included, becomes the effective rate.
\<close>

theorem set_sample_rate_zero_unvalidated:
  "sample_rate (set_sample_rate (BaseTurnAnalyzer_init None rest) 0) = 0 \<and>
   sample_rate (set_sample_rate (BaseTurnAnalyzer_init None rest) 0) =
     sample_rate (BaseTurnAnalyzer_init None rest) \<and>
   set_sample_rate (BaseTurnAnalyzer_init None rest) 0 = BaseTurnAnalyzer_init None rest \<and>
   sample_rate (set_sample_rate (BaseTurnAnalyzer_init None rest) r) = r \<and>
   sample_rate (set_sample_rate (BaseTurnAnalyzer_init None rest) (- 1)) = - 1"
  by (simp add: set_sample_rate_def sample_rate_def py_or_None BaseTurnAnalyzer_init_def)

section \<open>The two end-of-turn states\<close>

text \<open>
  C7. \<^verbatim>\<open>EndOfTurnState\<close> has exactly two values, \<^verbatim>\<open>COMPLETE\<close> and \<^verbatim>\<open>INCOMPLETE\<close>, which
  are different and carry nothing but their enumeration numbers 1 and 2. So whatever a
  concrete analyzer does, each state that \<^verbatim>\<open>append_audio\<close> returns, over any sequence of
  chunks, and the state component of what \<^verbatim>\<open>analyze_end_of_turn\<close> returns, is one of the
  two.
\<close>

theorem EndOfTurnState_two_valued:
  fixes append_audio :: "'s append_audio_op"
    and analyze_end_of_turn :: "('s, 'm, 'e) analyze_end_of_turn_op"
  shows "(s = COMPLETE \<or> s = INCOMPLETE) \<and>
   COMPLETE \<noteq> INCOMPLETE \<and>
   (UNIV :: EndOfTurnState set) = {COMPLETE, INCOMPLETE} \<and>
   card (UNIV :: EndOfTurnState set) = 2 \<and>
   EndOfTurnState_value COMPLETE = 1 \<and> EndOfTurnState_value INCOMPLETE = 2 \<and>
   fst (append_audio self buffer is_speech) \<in> {COMPLETE, INCOMPLETE} \<and>
   set (append_audios append_audio self chunks) \<subseteq> {COMPLETE, INCOMPLETE} \<and>
   (case analyze_end_of_turn self of
      Inl e \<Rightarrow> True
    | Inr r \<Rightarrow> fst (fst r) \<in> {COMPLETE, INCOMPLETE})"
proof -
  have two: "x = COMPLETE \<or> x = INCOMPLETE" for x :: EndOfTurnState
    by (cases x) simp_all
  have univ: "(UNIV :: EndOfTurnState set) = {COMPLETE, INCOMPLETE}"
    using two by auto
  have "card (UNIV :: EndOfTurnState set) = 2"
    by (simp add: univ)
  moreover have "x \<in> {COMPLETE, INCOMPLETE}" for x :: EndOfTurnState
    using two [of x] by auto
  moreover have "X \<subseteq> {COMPLETE, INCOMPLETE}" for X :: "EndOfTurnState set"
    using univ by auto
  ultimately show ?thesis
    using two [of s] univ
    by (simp add: EndOfTurnState_value_def split: sum.split)
qed

section \<open>Reset\<close>

text \<open>
  C8. \<^verbatim>\<open>clear()\<close> keeps the resolved effective sample rate, so the accessor
  \<^verbatim>\<open>sample_rate\<close> returns the same value before and after it, and keeps the
  construction-time rate and the configuration; it resets the accumulation state:
  \<open>speechTriggered\<close> is false afterwards, nothing is buffered and the timer is zero. The
  scenario of the specification: after \<^verbatim>\<open>set_sample_rate(16000)\<close> and an ingestion that
  set \<open>speechTriggered\<close>, \<^verbatim>\<open>clear()\<close> leaves \<open>speechTriggered\<close> false and the rate 16000.
\<close>

theorem clear_preserves_sample_rate:
  "sample_rate (clear self) = sample_rate self \<and>
   priv_init_sample_rate (clear self) = priv_init_sample_rate self \<and>
   priv_params (clear self) = priv_params self \<and>
   speech_triggered (clear self) = False \<and>
   priv_audio_buffer (clear self) = [] \<and> priv_timer (clear self) = 0 \<and>
   sample_rate (clear ((set_sample_rate (TurnAnalyzer_init None params) 16000)
      \<lparr>priv_speech_triggered := True, priv_audio_buffer := [chunk], priv_timer := 20\<rparr>)) = 16000 \<and>
   speech_triggered (clear ((set_sample_rate (TurnAnalyzer_init None params) 16000)
      \<lparr>priv_speech_triggered := True, priv_audio_buffer := [chunk], priv_timer := 20\<rparr>)) = False \<and>
   clear ((set_sample_rate (TurnAnalyzer_init fixed params) r)
      \<lparr>priv_speech_triggered := t, priv_audio_buffer := b, priv_timer := n\<rparr>) =
     set_sample_rate (TurnAnalyzer_init fixed params) r"
  by (simp add: clear_def sample_rate_def speech_triggered_def set_sample_rate_def
      TurnAnalyzer_init_def py_or_None)

end
